theory Spec2Isabelle
  imports Main
begin

section \<open>JavaScript values\<close>

text \<open>
  Values that reach the client as parsed JSON. The JavaScript value \<open>undefined\<close> (a
  missing property) is \<open>None\<close> of \<open>json option\<close>; \<open>null\<close> is \<open>JNull\<close>.
  Numbers are modelled as exact integers: the expiry claim of a token is a number of
  seconds and \<open>Date.now()\<close> a number of milliseconds.
\<close>

datatype json =
    JNull
  | JBool bool
  | JNum int
  | JStr string
  | JArr "json list"
  | JObj "(string \<times> json) list"

text \<open>Truthiness, as tested by \<open>!v\<close>, \<open>!!v\<close>, \<open>v && ...\<close> and \<open>if (v)\<close>.\<close>

fun truthy :: "json \<Rightarrow> bool" where
  "truthy JNull = False"
| "truthy (JBool b) = b"
| "truthy (JNum n) = (n \<noteq> 0)"
| "truthy (JStr s) = (s \<noteq> [])"
| "truthy (JArr xs) = True"
| "truthy (JObj kvs) = True"

definition truthy_opt :: "json option \<Rightarrow> bool" where
  "truthy_opt v = (case v of None \<Rightarrow> False | Some j \<Rightarrow> truthy j)"

text \<open>A state variable or storage entry that is a string or \<open>null\<close>.\<close>

definition truthy_str :: "string option \<Rightarrow> bool" where
  "truthy_str v = (case v of None \<Rightarrow> False | Some s \<Rightarrow> s \<noteq> [])"

text \<open>
  Reading a data property \<open>v.k\<close> of a non-null value: an object yields the stored value,
  any other value has no such property (the program reads only \<open>exp\<close>, \<open>error\<close> and
  \<open>errors\<close>, none of them a built-in property of strings, numbers or arrays).
\<close>

fun get_prop :: "json \<Rightarrow> string \<Rightarrow> json option" where
  "get_prop (JObj kvs) k = map_of kvs k"
| "get_prop v k = None"

text \<open>
  The numeric conversion applied by \<open>v * 1000\<close>; \<open>None\<close> is \<open>NaN\<close>. The conversion of
  strings, arrays and objects is the platform's and is the parameter \<open>conv\<close>.
\<close>

fun to_number :: "(json \<Rightarrow> int option) \<Rightarrow> json option \<Rightarrow> int option" where
  "to_number conv None = None"
| "to_number conv (Some JNull) = Some 0"
| "to_number conv (Some (JBool b)) = Some (if b then 1 else 0)"
| "to_number conv (Some (JNum n)) = Some n"
| "to_number conv (Some v) = conv v"

text \<open>\<open>s.split(c)\<close> for a one-character separator, and \<open>xs[i]\<close> on the result.\<close>

fun split :: "char \<Rightarrow> string \<Rightarrow> string list" where
  "split c [] = [[]]"
| "split c (x # xs) =
     (if x = c then [] # split c xs
      else (case split c xs of
              [] \<Rightarrow> [[x]]
            | s # ss \<Rightarrow> (x # s) # ss))"

definition index :: "'a list \<Rightarrow> nat \<Rightarrow> 'a option" where
  "index xs i = (if i < length xs then Some (xs ! i) else None)"

section \<open>Session store (src/auth/AuthContext.jsx)\<close>

text \<open>
  \<open>decodeToken\<close>, lines 6--15. \<open>atob\<close> and \<open>JSON.parse\<close> are platform functions and
  are parameters; \<open>None\<close> is a thrown exception, which the \<open>catch\<close> turns into \<open>null\<close>.
  A token without a second segment passes \<open>undefined\<close> to \<open>atob\<close>, which converts its
  argument to the string \<open>undefined\<close>.
\<close>

definition atob_argument :: "string option \<Rightarrow> string" where
  "atob_argument payload = (case payload of None \<Rightarrow> ''undefined'' | Some p \<Rightarrow> p)"

definition decodeToken ::
  "(string \<Rightarrow> string option) \<Rightarrow> (string \<Rightarrow> json option) \<Rightarrow> string \<Rightarrow> json" where
  "decodeToken atob JSON_parse tok =
     (let payload = index (split CHR ''.'' tok) 1 in
      case atob (atob_argument payload) of
        None \<Rightarrow> JNull
      | Some bytes \<Rightarrow>
          (case JSON_parse bytes of
             None \<Rightarrow> JNull
           | Some decoded \<Rightarrow> decoded))"

text \<open>The provider's state: lines 18--21.\<close>

record auth_state =
  user :: json
  role :: "string option"
  token :: "string option"
  loading :: bool

definition initial_auth :: auth_state where
  "initial_auth = \<lparr>user = JNull, role = None, token = None, loading = True\<rparr>"

text \<open>\<open>isAuthenticated\<close>, lines 69--71.\<close>

definition isAuthenticated :: "auth_state \<Rightarrow> bool" where
  "isAuthenticated a = (truthy_str (token a) \<and> truthy (user a) \<and> truthy_str (role a))"

text \<open>
  \<open>isTokenExpired\<close>, lines 74--79. \<open>now\<close> is the value of \<open>Date.now()\<close>, the number
  of milliseconds elapsed since the epoch.
\<close>

definition isTokenExpired ::
  "(string \<Rightarrow> string option) \<Rightarrow> (string \<Rightarrow> json option) \<Rightarrow> (json \<Rightarrow> int option) \<Rightarrow>
   nat \<Rightarrow> auth_state \<Rightarrow> bool" where
  "isTokenExpired atob JSON_parse conv now a =
     (case token a of
        None \<Rightarrow> True
      | Some tok \<Rightarrow>
          if tok = [] then True
          else
            (let decoded = decodeToken atob JSON_parse tok in
             if \<not> truthy decoded \<or> \<not> truthy_opt (get_prop decoded ''exp'') then True
             else
               (case to_number conv (get_prop decoded ''exp'') of
                  None \<Rightarrow> False
                | Some n \<Rightarrow> n * 1000 < int now)))"

text \<open>
  The browser and router state the client acts on. \<open>localStorage\<close> maps keys to
  strings. \<open>window_location\<close> lists the addresses assigned to
  \<open>window.location.href\<close>, oldest first: each assignment starts a full page
  navigation, also to the address already shown. \<open>router\<close> lists the targets of the
  router's \<open>navigate(...)\<close> calls.
\<close>

type_synonym storage = "string \<rightharpoonup> string"

definition setItem :: "string \<Rightarrow> string \<Rightarrow> storage \<Rightarrow> storage" where
  "setItem k v ls = ls(k \<mapsto> v)"

definition removeItem :: "string \<Rightarrow> storage \<Rightarrow> storage" where
  "removeItem k ls = ls(k := None)"

record app =
  auth :: auth_state
  localStorage :: storage
  window_location :: "string list"
  router :: "string list"

text \<open>
  \<open>setItem\<close> stores the string conversion of its argument. Token and role are modelled
  as a string or \<open>null\<close> (\<open>None\<close>), and \<open>null\<close> is stored as the string \<open>null\<close>; a
  value of \<open>undefined\<close>, which would be stored as \<open>undefined\<close>, is not distinguished
  from \<open>null\<close>.
\<close>

definition String :: "string option \<Rightarrow> string" where
  "String v = (case v of None \<Rightarrow> ''null'' | Some s \<Rightarrow> s)"

text \<open>
  \<open>login\<close>, lines 45--54. \<open>JSON.stringify\<close> is the parameter \<open>stringify\<close>. The state
  returned is the one the next render sees.
\<close>

definition login ::
  "(json \<Rightarrow> string) \<Rightarrow> string option \<Rightarrow> json \<Rightarrow> string option \<Rightarrow> app \<Rightarrow> app" where
  "login stringify accessToken userData userRole w =
     w\<lparr>auth := (auth w)\<lparr>token := accessToken, user := userData, role := userRole\<rparr>,
       localStorage :=
         setItem ''role'' (String userRole)
           (setItem ''user'' (stringify userData)
              (setItem ''access_token'' (String accessToken) (localStorage w)))\<rparr>"

text \<open>\<open>logout\<close>, lines 57--66.\<close>

definition logout :: "app \<Rightarrow> app" where
  "logout w =
     w\<lparr>auth := (auth w)\<lparr>token := None, user := JNull, role := None\<rparr>,
       localStorage :=
         removeItem ''role''
           (removeItem ''user''
              (removeItem ''access_token'' (localStorage w)))\<rparr>"

text \<open>
  The effect run on mount, lines 24--42. \<open>JSON.parse(storedUser)\<close> is not inside a
  \<open>try\<close>: when it throws, the effect ends with that exception. Where the stored
  entries are read as strings they have passed the truthiness test, so \<open>String\<close>
  returns them unchanged.
\<close>

datatype js_error = SyntaxError | TypeError

definition init_effect ::
  "(string \<Rightarrow> string option) \<Rightarrow> (string \<Rightarrow> json option) \<Rightarrow> (json \<Rightarrow> int option) \<Rightarrow>
   nat \<Rightarrow> app \<Rightarrow> js_error + app" where
  "init_effect atob JSON_parse conv now w =
     (let storedToken = localStorage w ''access_token'';
          storedUser = localStorage w ''user'';
          storedRole = localStorage w ''role''
      in
      if truthy_str storedToken \<and> truthy_str storedUser \<and> truthy_str storedRole then
        (let decoded = decodeToken atob JSON_parse (String storedToken) in
         if truthy decoded \<and>
            (case to_number conv (get_prop decoded ''exp'') of
               None \<Rightarrow> False
             | Some n \<Rightarrow> n * 1000 > int now)
         then
           (case JSON_parse (String storedUser) of
              None \<Rightarrow> Inl SyntaxError
            | Some u \<Rightarrow>
                Inr (w\<lparr>auth := (auth w)\<lparr>token := storedToken, user := u,
                                         role := storedRole, loading := False\<rparr>\<rparr>))
         else
           (let w' = logout w in Inr (w'\<lparr>auth := (auth w')\<lparr>loading := False\<rparr>\<rparr>)))
      else Inr (w\<lparr>auth := (auth w)\<lparr>loading := False\<rparr>\<rparr>))"

text \<open>
  The invariant of the persisted session: the three keys are all present or all absent.
\<close>

definition all_present :: "storage \<Rightarrow> bool" where
  "all_present ls = (ls ''access_token'' \<noteq> None \<and> ls ''user'' \<noteq> None \<and> ls ''role'' \<noteq> None)"

definition all_absent :: "storage \<Rightarrow> bool" where
  "all_absent ls = (ls ''access_token'' = None \<and> ls ''user'' = None \<and> ls ''role'' = None)"

definition session_invariant :: "storage \<Rightarrow> bool" where
  "session_invariant ls = (all_present ls \<or> all_absent ls)"

section \<open>HTTP client wrapper (src/api/axios.js)\<close>

record http_response =
  status :: int
  data :: json

text \<open>
  The error object of a failed request: \<open>response\<close> is absent when no answer arrived.
\<close>

record axios_error =
  response :: "http_response option"
  message :: string

datatype 'a promise = Fulfilled 'a | Rejected axios_error

text \<open>
  The response interceptor, lines 41--54: a fulfilled response passes through; a
  rejection with status 401 removes two storage keys and assigns the login address; every
  rejection is then rejected again with the same error.
\<close>

definition response_interceptor :: "'a promise \<Rightarrow> app \<Rightarrow> app \<times> 'a promise" where
  "response_interceptor p w =
     (case p of
        Fulfilled r \<Rightarrow> (w, Fulfilled r)
      | Rejected e \<Rightarrow>
          ((if map_option status (response e) = Some 401 then
              w\<lparr>localStorage :=
                   removeItem ''user'' (removeItem ''access_token'' (localStorage w)),
                window_location := window_location w @ [''/login'']\<rparr>
            else w),
           Rejected e))"

section \<open>Login page (pages/Login.jsx)\<close>

record login_page =
  email :: string
  password :: string
  errors :: json
  login_loading :: bool

text \<open>
  White space as \<open>trim()\<close> and the pattern \<open>\S\<close> see it, on ASCII text, and the test
  of the pattern \<open>\S+@\S+\.\S+\<close> anywhere in the string: an \<open>@\<close> preceded by a
  non-space character and followed by a run of non-space characters that has a dot
  strictly inside it. Only the six ASCII white-space characters are counted; the
  platform also counts the Unicode spaces.
\<close>

definition is_space :: "char \<Rightarrow> bool" where
  "is_space c = (c \<in> set [CHR 0x09, CHR 0x0A, CHR 0x0B, CHR 0x0C, CHR 0x0D, CHR '' ''])"

definition domain_ok :: "string \<Rightarrow> bool" where
  "domain_ok cs =
     (let run = takeWhile (\<lambda>c. \<not> is_space c) cs in CHR ''.'' \<in> set (butlast (drop 1 run)))"

fun email_test :: "char option \<Rightarrow> string \<Rightarrow> bool" where
  "email_test prev [] = False"
| "email_test prev (c # cs) =
     ((c = CHR ''@'' \<and> (case prev of None \<Rightarrow> False | Some p \<Rightarrow> \<not> is_space p) \<and> domain_ok cs)
      \<or> email_test (Some c) cs)"

text \<open>\<open>validate\<close>, lines 15--31: the entries of the object it returns.\<close>

definition validate :: "login_page \<Rightarrow> (string \<times> json) list" where
  "validate p =
     (if list_all is_space (email p) then [(''email'', JStr ''Email is required'')]
      else if \<not> email_test None (email p) then [(''email'', JStr ''Email is invalid'')]
      else [])
     @
     (if password p = [] then [(''password'', JStr ''Password is required'')]
      else if length (password p) < 6 then
        [(''password'', JStr ''Password must be at least 6 characters'')]
      else [])"

text \<open>The body of a successful login response, as destructured on line 54.\<close>

record login_data =
  access_token :: "string option"
  data_role :: "string option"
  facility_id :: "json option"

text \<open>
  \<open>s.toUpperCase()\<close> on ASCII text: the letters \<open>a\<close> to \<open>z\<close> are mapped, every
  other character is kept. The platform's function also maps letters outside ASCII.
\<close>

definition upper_char :: "char \<Rightarrow> char" where
  "upper_char c =
     (let n = (of_char c :: nat) in if 97 \<le> n \<and> n \<le> 122 then char_of (n - 32) else c)"

definition toUpperCase :: "string \<Rightarrow> string" where
  "toUpperCase s = map upper_char s"

text \<open>\<open>error.response?.data?.k\<close>.\<close>

definition response_prop :: "axios_error \<Rightarrow> string \<Rightarrow> json option" where
  "response_prop e k = (case response e of None \<Rightarrow> None | Some r \<Rightarrow> get_prop (data r) k)"

definition api_error :: "string \<Rightarrow> json" where
  "api_error m = JObj [(''api'', JStr m)]"

text \<open>The \<open>catch\<close> block for a rejected request, lines 73--87: the new \<open>errors\<close>.\<close>

definition login_catch :: "axios_error \<Rightarrow> json" where
  "login_catch e =
     (if truthy_opt (response_prop e ''error'') then
        JObj [(''api'', case response_prop e ''error'' of None \<Rightarrow> JNull | Some v \<Rightarrow> v)]
      else if truthy_opt (response_prop e ''errors'') then
        (case response_prop e ''errors'' of None \<Rightarrow> JNull | Some v \<Rightarrow> v)
      else if map_option status (response e) = Some 401 then
        api_error ''Invalid email or password''
      else if message e = ''Network Error'' then
        api_error ''Cannot connect to server. Please check if the backend is running.''
      else api_error ''An unexpected error occurred. Please try again.'')"

text \<open>
  \<open>handleSubmit\<close>, lines 34--91. \<open>reply\<close> is what the transport hands to the response
  interceptor for \<open>POST /auth/login\<close>. After a successful response with no role,
  \<open>role.toUpperCase()\<close> throws inside the \<open>try\<close>; that error has no response and its
  message is not \<open>Network Error\<close>.
\<close>

definition handleSubmit ::
  "(json \<Rightarrow> string) \<Rightarrow> login_data promise \<Rightarrow> login_page \<times> app \<Rightarrow> login_page \<times> app" where
  "handleSubmit stringify reply pw =
     (let p = (fst pw)\<lparr>errors := JObj []\<rparr>; w = snd pw; validationErrors = validate p in
      if length validationErrors > 0 then (p\<lparr>errors := JObj validationErrors\<rparr>, w)
      else
        (case response_interceptor reply w of
           (w1, Fulfilled d) \<Rightarrow>
             (let w2 = login stringify (access_token d)
                         (JObj ((''email'', JStr (email p)) #
                                (case facility_id d of
                                   None \<Rightarrow> []
                                 | Some v \<Rightarrow> [(''facility_id'', v)])))
                         (data_role d) w1
              in
              case data_role d of
                None \<Rightarrow>
                  (p\<lparr>errors := api_error ''An unexpected error occurred. Please try again.'',
                     login_loading := False\<rparr>, w2)
              | Some r \<Rightarrow>
                  (p\<lparr>login_loading := False\<rparr>,
                   w2\<lparr>router := router w2 @
                        [if toUpperCase r = ''ADMIN'' then ''/admin/facilities''
                         else if toUpperCase r = ''REPORTER'' then ''/report''
                         else if toUpperCase r = ''MONITOR'' then ''/dashboard''
                         else ''/'']\<rparr>))
         | (w1, Rejected e) \<Rightarrow> (p\<lparr>errors := login_catch e, login_loading := False\<rparr>, w1)))"

text \<open>The error banner, lines 180--191: shown when \<open>errors.api\<close> is truthy.\<close>

definition displayed_api_error :: "login_page \<Rightarrow> json option" where
  "displayed_api_error p =
     (if truthy_opt (get_prop (errors p) ''api'') then get_prop (errors p) ''api'' else None)"

section \<open>Route guard (components/ProtectedRoute.jsx)\<close>

datatype element = LoadingPlaceholder | Navigate string | Children

text \<open>\<open>allowedRoles.includes(role?.toUpperCase())\<close>.\<close>

definition array_includes :: "string list \<Rightarrow> string option \<Rightarrow> bool" where
  "array_includes xs v = (case v of None \<Rightarrow> False | Some s \<Rightarrow> s \<in> set xs)"

definition ProtectedRoute :: "auth_state \<Rightarrow> string list \<Rightarrow> element" where
  "ProtectedRoute ctx allowedRoles =
     (if loading ctx then LoadingPlaceholder
      else if \<not> isAuthenticated ctx then Navigate ''/login''
      else if length allowedRoles > 0 \<and>
              \<not> array_includes allowedRoles (map_option toUpperCase (role ctx)) then
        (if map_option toUpperCase (role ctx) = Some ''ADMIN'' then Navigate ''/admin/facilities''
         else if map_option toUpperCase (role ctx) = Some ''REPORTER'' then Navigate ''/report''
         else if map_option toUpperCase (role ctx) = Some ''MONITOR'' then Navigate ''/dashboard''
         else Navigate ''/login'')
      else Children)"

section \<open>Dashboard (pages/monitor/Dashboard.jsx)\<close>

text \<open>A facility-status record of the dashboard response; \<open>None\<close> is \<open>null\<close>.\<close>

record facility =
  facility_name :: "string option"
  country :: "string option"
  city :: "string option"
  icu_beds_available :: "int option"
  ventilators_available :: "int option"
  staff_on_duty :: "int option"
  critical :: bool
  last_update :: "string option"

record dashboard =
  facilities :: "facility list"
  selectedCountry :: string
  selectedCity :: string

text \<open>\<open>filteredFacilities\<close>, lines 47--56.\<close>

definition filteredFacilities :: "dashboard \<Rightarrow> facility list" where
  "filteredFacilities d =
     (let result = facilities d;
          result = (if selectedCountry d \<noteq> [] then
                      filter (\<lambda>f. country f = Some (selectedCountry d)) result
                    else result);
          result = (if selectedCity d \<noteq> [] then
                      filter (\<lambda>f. city f = Some (selectedCity d)) result
                    else result)
      in result)"

text \<open>The handlers of the two selectors, lines 396--399 and 417, and \<open>clearFilters\<close>.\<close>

definition country_onChange :: "string \<Rightarrow> dashboard \<Rightarrow> dashboard" where
  "country_onChange v d = d\<lparr>selectedCountry := v, selectedCity := []\<rparr>"

definition city_onChange :: "string \<Rightarrow> dashboard \<Rightarrow> dashboard" where
  "city_onChange v d = d\<lparr>selectedCity := v\<rparr>"

definition clearFilters :: "dashboard \<Rightarrow> dashboard" where
  "clearFilters d = d\<lparr>selectedCountry := [], selectedCity := []\<rparr>"

text \<open>
  The three status cards, lines 472--522: Critical Situations, No Data Reported and
  Active Reports, and the total shown on the first card, line 462.
\<close>

definition card_critical :: "facility list \<Rightarrow> nat" where
  "card_critical fs = length (filter (\<lambda>f. critical f) fs)"

definition card_no_data :: "facility list \<Rightarrow> nat" where
  "card_no_data fs = length (filter (\<lambda>f. last_update f = None) fs)"

definition card_active_reports :: "facility list \<Rightarrow> nat" where
  "card_active_reports fs = length (filter (\<lambda>f. last_update f \<noteq> None) fs)"

definition card_total :: "facility list \<Rightarrow> nat" where
  "card_total fs = length fs"

text \<open>The status counts of the pie chart, lines 179--181.\<close>

definition criticalCount :: "facility list \<Rightarrow> nat" where
  "criticalCount fs = length (filter (\<lambda>f. critical f) fs)"

definition noDataCount :: "facility list \<Rightarrow> nat" where
  "noDataCount fs = length (filter (\<lambda>f. last_update f = None) fs)"

definition activeCount :: "facility list \<Rightarrow> nat" where
  "activeCount fs = length (filter (\<lambda>f. last_update f \<noteq> None \<and> \<not> critical f) fs)"

text \<open>
  The status of a table row as \<open>getStatusColor\<close> distinguishes it, lines 225--233:
  critical first, then no recorded update, otherwise active.
\<close>

datatype status = Critical | NoData | Active

definition facility_status :: "facility \<Rightarrow> status" where
  "facility_status f =
     (if critical f then Critical else if last_update f = None then NoData else Active)"

section \<open>The filter predicates in the specification's words\<close>

text \<open>
  Each predicate matches every facility when its selection is empty, and otherwise the
  facilities whose field equals the selection.
\<close>

definition country_predicate :: "string \<Rightarrow> facility \<Rightarrow> bool" where
  "country_predicate sel f = (sel = [] \<or> country f = Some sel)"

definition city_predicate :: "string \<Rightarrow> facility \<Rightarrow> bool" where
  "city_predicate sel f = (sel = [] \<or> city f = Some sel)"

section \<open>Concrete inputs\<close>

definition reporter_session :: auth_state where
  "reporter_session =
     \<lparr>user = JObj [(''email'', JStr ''r@x.org'')], role = Some ''REPORTER'',
      token = Some ''h.p.s'', loading = False\<rparr>"

definition guest_session :: auth_state where
  "guest_session =
     \<lparr>user = JObj [(''email'', JStr ''g@x.org'')], role = Some ''guest'',
      token = Some ''h.p.s'', loading = False\<rparr>"

definition sample_app :: app where
  "sample_app =
     \<lparr>auth = initial_auth\<lparr>loading := False\<rparr>,
      localStorage = Map.empty,
      window_location = [],
      router = []\<rparr>"

definition stored_session :: storage where
  "stored_session =
     [''access_token'' \<mapsto> ''h.p.s'', ''user'' \<mapsto> ''u'', ''role'' \<mapsto> ''ADMIN'']"

definition sample_user :: json where
  "sample_user = JObj [(''email'', JStr ''a@b.co'')]"

definition sample_stringify :: "json \<Rightarrow> string" where
  "sample_stringify j = ''u''"

definition error_401 :: axios_error where
  "error_401 =
     \<lparr>response = Some \<lparr>status = 401,
                        data = JObj [(''error'', JStr ''Invalid email or password'')]\<rparr>,
      message = ''Request failed with status code 401''\<rparr>"

definition mk_facility ::
  "string \<Rightarrow> string \<Rightarrow> string \<Rightarrow> int option \<Rightarrow> bool \<Rightarrow> string option \<Rightarrow> facility" where
  "mk_facility n co ci icu cr lu =
     \<lparr>facility_name = Some n, country = Some co, city = Some ci, icu_beds_available = icu,
      ventilators_available = icu, staff_on_duty = icu, critical = cr, last_update = lu\<rparr>"

text \<open>Six facilities: two critical, one without data, three active.\<close>

definition sample_facilities :: "facility list" where
  "sample_facilities =
     [mk_facility ''A'' ''Kenya'' ''Nairobi'' (Some 0) True (Some ''2024-01-01''),
      mk_facility ''B'' ''Kenya'' ''Mombasa'' (Some 0) True (Some ''2024-01-02''),
      mk_facility ''C'' ''Kenya'' ''Nairobi'' None False None,
      mk_facility ''D'' ''Kenya'' ''Nairobi'' (Some 4) False (Some ''2024-01-03''),
      mk_facility ''E'' ''Uganda'' ''Kampala'' (Some 2) False (Some ''2024-01-04''),
      mk_facility ''F'' ''Uganda'' ''Nairobi'' (Some 7) False (Some ''2024-01-05'')]"

definition kenya_nairobi :: dashboard where
  "kenya_nairobi =
     \<lparr>facilities = sample_facilities, selectedCountry = ''Kenya'', selectedCity = ''Nairobi''\<rparr>"

text \<open>
  Stand-ins for the platform functions: this \<open>atob\<close> rejects the string \<open>undefined\<close>
  and returns any other argument unchanged; this \<open>JSON.parse\<close> knows two payloads.
\<close>

definition sample_atob :: "string \<Rightarrow> string option" where
  "sample_atob s = (if s = ''undefined'' then None else Some s)"

definition sample_parse :: "string \<Rightarrow> json option" where
  "sample_parse s =
     (if s = ''exp100'' then Some (JObj [(''exp'', JNum 100)])
      else if s = ''noexp'' then Some (JObj [(''sub'', JStr ''x'')])
      else None)"

definition session_with :: "string option \<Rightarrow> auth_state" where
  "session_with t = \<lparr>user = sample_user, role = Some ''ADMIN'', token = t, loading = False\<rparr>"

definition sample_page :: login_page where
  "sample_page = \<lparr>email = ''a@b.co'', password = ''secret1'', errors = JObj [],
                  login_loading = False\<rparr>"

section \<open>Auxiliary facts\<close>

lemma upper_REPORTER: "toUpperCase ''REPORTER'' = ''REPORTER''"
  by code_simp

lemma upper_guest: "toUpperCase ''guest'' = ''GUEST''"
  by code_simp

lemma validate_sample_page: "validate (sample_page\<lparr>errors := JObj []\<rparr>) = []"
  by (simp add: sample_page_def validate_def is_space_def domain_ok_def)

lemma length_filter_split:
  "length (filter P xs) + length (filter (\<lambda>x. \<not> P x) xs) = length xs"
  by (induction xs) simp_all

lemma login_all_present:
  "all_present (localStorage (login stringify accessToken userData userRole w))"
  by (simp add: login_def all_present_def setItem_def)

lemma logout_all_absent: "all_absent (localStorage (logout w))"
  by (simp add: logout_def all_absent_def removeItem_def)

text \<open>
  The mount effect leaves the storage as it is or, when it finds a full session whose
  token is no longer valid, removes all three keys.
\<close>

lemma init_effect_storage:
  assumes "init_effect atob JSON_parse conv now w = Inr w'"
  shows "localStorage w' = localStorage w \<or> all_absent (localStorage w')"
  using assms logout_all_absent [of w]
  by (auto simp add: init_effect_def Let_def split: if_splits option.splits)

lemma init_effect_invariant:
  assumes "init_effect atob JSON_parse conv now w = Inr w'"
    and "session_invariant (localStorage w)"
  shows "session_invariant (localStorage w')"
  using init_effect_storage [OF assms(1)] assms(2)
  by (auto simp add: session_invariant_def)

section \<open>Route guard\<close>

text \<open>
  Claim C5. The route guard decides in order. While the session is loading it renders
  the loading placeholder. Once loading has finished, a session that is not
  authenticated is redirected to the login page, whatever \<open>allowedRoles\<close> is. The
  allowed roles influence the result only when both checks have passed: any result other
  than the placeholder and the login redirect requires a loaded, authenticated session.
\<close>

theorem ProtectedRoute_order:
  "(loading ctx \<longrightarrow> ProtectedRoute ctx allowedRoles = LoadingPlaceholder) \<and>
   (\<not> loading ctx \<and> \<not> isAuthenticated ctx \<longrightarrow>
      ProtectedRoute ctx allowedRoles = Navigate ''/login'') \<and>
   (loading ctx \<or> \<not> isAuthenticated ctx \<longrightarrow>
      ProtectedRoute ctx allowedRoles = ProtectedRoute ctx otherRoles) \<and>
   (ProtectedRoute ctx allowedRoles \<noteq> LoadingPlaceholder \<and>
    ProtectedRoute ctx allowedRoles \<noteq> Navigate ''/login'' \<longrightarrow>
      \<not> loading ctx \<and> isAuthenticated ctx)"
  by (simp add: ProtectedRoute_def)

theorem ProtectedRoute_order_witness:
  "loading initial_auth \<and> ProtectedRoute initial_auth [''ADMIN''] = LoadingPlaceholder \<and>
   ProtectedRoute initial_auth [''ADMIN''] = ProtectedRoute initial_auth [] \<and>
   \<not> loading (initial_auth\<lparr>loading := False\<rparr>) \<and>
   \<not> isAuthenticated (initial_auth\<lparr>loading := False\<rparr>) \<and>
   ProtectedRoute (initial_auth\<lparr>loading := False\<rparr>) [''ADMIN''] = Navigate ''/login'' \<and>
   ProtectedRoute reporter_session [''ADMIN''] \<noteq> LoadingPlaceholder \<and>
   ProtectedRoute reporter_session [''ADMIN''] \<noteq> Navigate ''/login'' \<and>
   \<not> loading reporter_session \<and> isAuthenticated reporter_session"
  using ProtectedRoute_order [of initial_auth "[''ADMIN'']" "[]"]
    ProtectedRoute_order [of "initial_auth\<lparr>loading := False\<rparr>" "[''ADMIN'']" "[]"]
    ProtectedRoute_order [of reporter_session "[''ADMIN'']" "[]"]
  by (simp add: initial_auth_def reporter_session_def isAuthenticated_def truthy_str_def
      ProtectedRoute_def array_includes_def upper_REPORTER)

text \<open>
  Claim C6, as amended. For every loaded, authenticated session whose role, in upper
  case, is not in a non-empty list of allowed roles, the guard redirects to the landing
  page of that role: ADMIN to the facilities list, REPORTER to the report form, MONITOR to
  the dashboard, any other role to login. With an empty list of allowed roles there is no
  redirect.
\<close>

theorem ProtectedRoute_wrong_role:
  assumes "\<not> loading ctx" and "isAuthenticated ctx" and "allowedRoles \<noteq> []"
    and "role ctx = Some r" and "toUpperCase r \<notin> set allowedRoles"
  shows "ProtectedRoute ctx allowedRoles =
           Navigate (if toUpperCase r = ''ADMIN'' then ''/admin/facilities''
                     else if toUpperCase r = ''REPORTER'' then ''/report''
                     else if toUpperCase r = ''MONITOR'' then ''/dashboard''
                     else ''/login'')"
  using assms by (simp add: ProtectedRoute_def array_includes_def)

theorem ProtectedRoute_wrong_role_witness:
  "\<not> loading reporter_session \<and> isAuthenticated reporter_session \<and>
   role reporter_session = Some ''REPORTER'' \<and>
   toUpperCase ''REPORTER'' \<notin> set [''ADMIN''] \<and>
   ProtectedRoute reporter_session [''ADMIN''] = Navigate ''/report''"
  using ProtectedRoute_wrong_role [of reporter_session "[''ADMIN'']" "''REPORTER''"]
  by (simp add: reporter_session_def isAuthenticated_def truthy_str_def upper_REPORTER)

text \<open>
  The claim as stated fails for an empty list of allowed roles: the reporter's role is not
  in it, yet the guard renders the protected content.
\<close>

theorem ProtectedRoute_wrong_role_counterexample:
  "isAuthenticated reporter_session \<and>
   \<not> array_includes [] (map_option toUpperCase (role reporter_session)) \<and>
   ProtectedRoute reporter_session [] = Children \<and>
   ProtectedRoute reporter_session [] \<noteq> Navigate ''/report''"
  by (simp add: reporter_session_def isAuthenticated_def truthy_str_def ProtectedRoute_def
      array_includes_def)

text \<open>
  Claim C10. With an empty list of allowed roles the guard never redirects an
  authenticated session and, once loading has finished, renders the protected content,
  whatever the role. A loaded, authenticated session gets something other than the
  protected content only when the list of allowed roles is not empty.
\<close>

theorem ProtectedRoute_no_allowedRoles:
  "(isAuthenticated ctx \<longrightarrow> (\<forall>to. ProtectedRoute ctx [] \<noteq> Navigate to)) \<and>
   (isAuthenticated ctx \<and> \<not> loading ctx \<longrightarrow> ProtectedRoute ctx [] = Children) \<and>
   (isAuthenticated ctx \<and> \<not> loading ctx \<and> ProtectedRoute ctx allowedRoles \<noteq> Children \<longrightarrow>
      allowedRoles \<noteq> [])"
  by (auto simp add: ProtectedRoute_def)

theorem ProtectedRoute_no_allowedRoles_witness:
  "isAuthenticated guest_session \<and> \<not> loading guest_session \<and>
   ProtectedRoute guest_session [] = Children \<and>
   ProtectedRoute guest_session [''ADMIN''] \<noteq> Children \<and> [''ADMIN''] \<noteq> []"
  using ProtectedRoute_no_allowedRoles [of guest_session "[''ADMIN'']"]
  by (simp add: guest_session_def isAuthenticated_def truthy_str_def ProtectedRoute_def
      array_includes_def upper_guest)

section \<open>Dashboard\<close>

text \<open>
  Claim C7. The filtered list holds exactly the facilities, in their order, that satisfy
  both the country predicate and the city predicate, each of which matches everything
  when its selection is empty. Choosing a country, or clearing the choice, empties the
  selected city and leaves the facilities as they are.
\<close>

theorem filteredFacilities_spec:
  "filteredFacilities d =
     filter (\<lambda>f. country_predicate (selectedCountry d) f \<and> city_predicate (selectedCity d) f)
       (facilities d) \<and>
   selectedCountry (country_onChange v d) = v \<and>
   selectedCity (country_onChange v d) = [] \<and>
   selectedCity (country_onChange [] d) = [] \<and>
   facilities (country_onChange v d) = facilities d"
  by (simp add: filteredFacilities_def country_predicate_def city_predicate_def
      country_onChange_def Let_def)

theorem filteredFacilities_spec_witness:
  "filteredFacilities kenya_nairobi =
     [sample_facilities ! 0, sample_facilities ! 2, sample_facilities ! 3] \<and>
   selectedCity (country_onChange [] kenya_nairobi) = []"
  using filteredFacilities_spec [of kenya_nairobi "[]"]
  by (simp add: kenya_nairobi_def sample_facilities_def mk_facility_def
      country_predicate_def city_predicate_def)

text \<open>
  Claim C8, as amended. The Critical Situations card shows the number of critical
  facilities and the No Data Reported card the number of facilities without a recorded
  update. The Active Reports card shows the number of facilities with a recorded update,
  which is the number of active facilities plus the number of critical facilities that
  have an update. The last two cards sum to the total; the pie chart's three counts sum
  to the total plus the number of critical facilities without an update.
\<close>

theorem status_cards_spec:
  "card_critical fs = length (filter (\<lambda>f. facility_status f = Critical) fs) \<and>
   card_no_data fs = length (filter (\<lambda>f. last_update f = None) fs) \<and>
   card_active_reports fs =
     length (filter (\<lambda>f. facility_status f = Active) fs) +
     length (filter (\<lambda>f. critical f \<and> last_update f \<noteq> None) fs) \<and>
   card_no_data fs + card_active_reports fs = card_total fs \<and>
   criticalCount fs + noDataCount fs + activeCount fs =
     card_total fs + length (filter (\<lambda>f. critical f \<and> last_update f = None) fs)"
proof -
  have crit: "card_critical fs = length (filter (\<lambda>f. facility_status f = Critical) fs)"
    unfolding card_critical_def facility_status_def
    by (induction fs) auto
  have act: "card_active_reports fs =
     length (filter (\<lambda>f. facility_status f = Active) fs) +
     length (filter (\<lambda>f. critical f \<and> last_update f \<noteq> None) fs)"
    unfolding card_active_reports_def facility_status_def
    by (induction fs) auto
  have two: "card_no_data fs + card_active_reports fs = card_total fs"
    unfolding card_no_data_def card_active_reports_def card_total_def
    by (rule length_filter_split)
  have pie: "criticalCount fs + noDataCount fs + activeCount fs =
     card_total fs + length (filter (\<lambda>f. critical f \<and> last_update f = None) fs)"
    unfolding criticalCount_def noDataCount_def activeCount_def card_total_def
    by (induction fs) auto
  show ?thesis
    using crit act two pie by (simp add: card_no_data_def)
qed

theorem status_cards_spec_witness:
  "card_critical sample_facilities = 2 \<and>
   card_no_data sample_facilities = 1 \<and>
   card_active_reports sample_facilities = 3 + 2 \<and>
   card_no_data sample_facilities + card_active_reports sample_facilities =
     card_total sample_facilities \<and>
   criticalCount sample_facilities + noDataCount sample_facilities +
     activeCount sample_facilities = card_total sample_facilities + 0"
  using status_cards_spec [of sample_facilities]
  by (simp add: sample_facilities_def mk_facility_def facility_status_def)

text \<open>
  The claim as stated fails on a list with two critical, one no-data and three active
  facilities: the cards show 2, 1 and 5, and their sum is 8, not 6.
\<close>

theorem status_cards_counterexample:
  "length (filter (\<lambda>f. facility_status f = Critical) sample_facilities) = 2 \<and>
   length (filter (\<lambda>f. facility_status f = NoData) sample_facilities) = 1 \<and>
   length (filter (\<lambda>f. facility_status f = Active) sample_facilities) = 3 \<and>
   card_critical sample_facilities = 2 \<and>
   card_no_data sample_facilities = 1 \<and>
   card_active_reports sample_facilities = 5 \<and>
   card_total sample_facilities = 6 \<and>
   card_critical sample_facilities + card_no_data sample_facilities +
     card_active_reports sample_facilities \<noteq> card_total sample_facilities"
  by (simp add: sample_facilities_def mk_facility_def facility_status_def card_critical_def
      card_no_data_def card_active_reports_def card_total_def)

section \<open>Session store\<close>

text \<open>
  Claim C9, as amended. From any prior state, \<open>login\<close> with a non-empty token, a truthy
  user record and a non-empty role is followed by \<open>isAuthenticated\<close> being true, and
  \<open>logout\<close> is followed by \<open>isAuthenticated\<close> being false.
\<close>

theorem login_logout_isAuthenticated:
  "(truthy_str accessToken \<and> truthy userData \<and> truthy_str userRole \<longrightarrow>
      isAuthenticated (auth (login stringify accessToken userData userRole w))) \<and>
   \<not> isAuthenticated (auth (logout w))"
  by (simp add: login_def logout_def isAuthenticated_def truthy_str_def)

theorem login_logout_isAuthenticated_witness:
  "truthy_str (Some ''h.p.s'') \<and> truthy sample_user \<and> truthy_str (Some ''ADMIN'') \<and>
   isAuthenticated
     (auth (login sample_stringify (Some ''h.p.s'') sample_user (Some ''ADMIN'') sample_app)) \<and>
   \<not> isAuthenticated
     (auth (logout
        (login sample_stringify (Some ''h.p.s'') sample_user (Some ''ADMIN'') sample_app)))"
  using login_logout_isAuthenticated
      [of "Some ''h.p.s''" sample_user "Some ''ADMIN''" sample_stringify sample_app]
    login_logout_isAuthenticated
      [of "Some ''h.p.s''" sample_user "Some ''ADMIN''" sample_stringify
        "login sample_stringify (Some ''h.p.s'') sample_user (Some ''ADMIN'') sample_app"]
  by (simp add: truthy_str_def sample_user_def)

text \<open>
  The claim as stated fails when the token handed to \<open>login\<close> is the empty string.
\<close>

theorem login_isAuthenticated_counterexample:
  "\<not> isAuthenticated
      (auth (login sample_stringify (Some []) sample_user (Some ''ADMIN'') sample_app))"
  by (simp add: login_def isAuthenticated_def truthy_str_def)

text \<open>
  Claim C1. \<open>isTokenExpired\<close> is true when there is no token, when the payload segment
  cannot be decoded (\<open>atob\<close> or \<open>JSON.parse\<close> throws) and when the decoded payload has
  no \<open>exp\<close> claim; it is true when the \<open>exp\<close> claim is a time before now, and false
  when it is a time after now.
\<close>

theorem isTokenExpired_spec:
  "(\<not> truthy_str (token a) \<longrightarrow> isTokenExpired atob JSON_parse conv now a) \<and>
   (token a = Some tok \<and> atob (atob_argument (index (split CHR ''.'' tok) 1)) = None \<longrightarrow>
      isTokenExpired atob JSON_parse conv now a) \<and>
   (token a = Some tok \<and> atob (atob_argument (index (split CHR ''.'' tok) 1)) = Some bytes \<and>
    JSON_parse bytes = None \<longrightarrow>
      isTokenExpired atob JSON_parse conv now a) \<and>
   (token a = Some tok \<and> get_prop (decodeToken atob JSON_parse tok) ''exp'' = None \<longrightarrow>
      isTokenExpired atob JSON_parse conv now a) \<and>
   (token a = Some tok \<and> get_prop (decodeToken atob JSON_parse tok) ''exp'' = Some (JNum n) \<and>
    n * 1000 < int now \<longrightarrow>
      isTokenExpired atob JSON_parse conv now a) \<and>
   (token a = Some tok \<and> tok \<noteq> [] \<and>
    get_prop (decodeToken atob JSON_parse tok) ''exp'' = Some (JNum n) \<and>
    int now < n * 1000 \<longrightarrow>
      \<not> isTokenExpired atob JSON_parse conv now a)"
proof -
  have obj: "truthy d" if "get_prop d ''exp'' = Some v" for d v
    using that by (cases d) simp_all
  show ?thesis
    by (auto simp add: isTokenExpired_def decodeToken_def Let_def truthy_str_def truthy_opt_def
        dest: obj split: option.splits)
qed

theorem isTokenExpired_spec_witness:
  "\<not> truthy_str (token (session_with None)) \<and>
   isTokenExpired sample_atob sample_parse (\<lambda>v. None) 200000 (session_with None) \<and>
   sample_atob (atob_argument (index (split CHR ''.'' ''abc'') 1)) = None \<and>
   isTokenExpired sample_atob sample_parse (\<lambda>v. None) 200000 (session_with (Some ''abc'')) \<and>
   sample_atob (atob_argument (index (split CHR ''.'' ''h.junk.s'') 1)) = Some ''junk'' \<and>
   sample_parse ''junk'' = None \<and>
   isTokenExpired sample_atob sample_parse (\<lambda>v. None) 200000 (session_with (Some ''h.junk.s'')) \<and>
   get_prop (decodeToken sample_atob sample_parse ''h.noexp.s'') ''exp'' = None \<and>
   isTokenExpired sample_atob sample_parse (\<lambda>v. None) 200000 (session_with (Some ''h.noexp.s'')) \<and>
   get_prop (decodeToken sample_atob sample_parse ''h.exp100.s'') ''exp'' = Some (JNum 100) \<and>
   (100::int) * 1000 < int 200000 \<and>
   isTokenExpired sample_atob sample_parse (\<lambda>v. None) 200000 (session_with (Some ''h.exp100.s'')) \<and>
   int 50000 < (100::int) * 1000 \<and>
   \<not> isTokenExpired sample_atob sample_parse (\<lambda>v. None) 50000 (session_with (Some ''h.exp100.s''))"
  using
    isTokenExpired_spec [where a = "session_with None" and atob = sample_atob
      and JSON_parse = sample_parse and conv = "\<lambda>v. None" and now = 200000]
    isTokenExpired_spec [where a = "session_with (Some ''abc'')" and tok = "''abc''"
      and atob = sample_atob and JSON_parse = sample_parse and conv = "\<lambda>v. None"
      and now = 200000]
    isTokenExpired_spec [where a = "session_with (Some ''h.junk.s'')" and tok = "''h.junk.s''"
      and bytes = "''junk''"
      and atob = sample_atob and JSON_parse = sample_parse and conv = "\<lambda>v. None"
      and now = 200000]
    isTokenExpired_spec [where a = "session_with (Some ''h.noexp.s'')" and tok = "''h.noexp.s''"
      and atob = sample_atob and JSON_parse = sample_parse and conv = "\<lambda>v. None"
      and now = 200000]
    isTokenExpired_spec [where a = "session_with (Some ''h.exp100.s'')"
      and tok = "''h.exp100.s''" and n = 100
      and atob = sample_atob and JSON_parse = sample_parse and conv = "\<lambda>v. None"
      and now = 200000]
    isTokenExpired_spec [where a = "session_with (Some ''h.exp100.s'')"
      and tok = "''h.exp100.s''" and n = 100
      and atob = sample_atob and JSON_parse = sample_parse and conv = "\<lambda>v. None"
      and now = 50000]
  by (simp add: session_with_def truthy_str_def decodeToken_def index_def atob_argument_def
      sample_atob_def sample_parse_def)

text \<open>
  Claim C2. Login, logout and the mount effect keep the three session keys all present or
  all absent (\<open>login_all_present\<close>, \<open>logout_all_absent\<close>, \<open>init_effect_invariant\<close>).
  The 401 handler does not: from a stored session it removes the token and the user
  record and leaves the role, a partial session.
\<close>

theorem interceptor_401_partial_session:
  "session_invariant (localStorage (sample_app\<lparr>localStorage := stored_session\<rparr>)) \<and>
   localStorage (fst (response_interceptor (Rejected error_401 :: unit promise)
       (sample_app\<lparr>localStorage := stored_session\<rparr>))) ''role'' = Some ''ADMIN'' \<and>
   localStorage (fst (response_interceptor (Rejected error_401 :: unit promise)
       (sample_app\<lparr>localStorage := stored_session\<rparr>))) ''access_token'' = None \<and>
   \<not> session_invariant (localStorage (fst (response_interceptor
       (Rejected error_401 :: unit promise) (sample_app\<lparr>localStorage := stored_session\<rparr>))))"
  by (simp add: response_interceptor_def error_401_def sample_app_def stored_session_def
      session_invariant_def all_present_def all_absent_def removeItem_def)

section \<open>HTTP client wrapper and login page\<close>

text \<open>
  Claim C3, as amended. For every rejected response with status 401 the client removes
  the stored token and user record and assigns the login address to the window location;
  it then rejects with the same error, so the caller's own error handling still runs for
  that call: the login page, for one, sets its errors from it.
\<close>

theorem response_interceptor_401:
  assumes "map_option status (response e) = Some 401"
  shows "localStorage (fst (response_interceptor (Rejected e :: login_data promise) w))
           ''access_token'' = None \<and>
         localStorage (fst (response_interceptor (Rejected e :: login_data promise) w))
           ''user'' = None \<and>
         window_location (fst (response_interceptor (Rejected e :: login_data promise) w)) =
           window_location w @ [''/login''] \<and>
         snd (response_interceptor (Rejected e :: login_data promise) w) = Rejected e \<and>
         (validate (p\<lparr>errors := JObj []\<rparr>) = [] \<longrightarrow>
            fst (handleSubmit stringify (Rejected e) (p, w)) =
              p\<lparr>errors := login_catch e, login_loading := False\<rparr>)"
  using assms
  by (simp add: response_interceptor_def removeItem_def handleSubmit_def Let_def)

theorem response_interceptor_401_witness:
  "map_option status (response error_401) = Some 401 \<and>
   validate (sample_page\<lparr>errors := JObj []\<rparr>) = [] \<and>
   localStorage (fst (response_interceptor (Rejected error_401 :: login_data promise)
     (sample_app\<lparr>localStorage := stored_session\<rparr>))) ''access_token'' = None \<and>
   window_location (fst (response_interceptor (Rejected error_401 :: login_data promise)
     (sample_app\<lparr>localStorage := stored_session\<rparr>))) = [''/login''] \<and>
   errors (fst (handleSubmit sample_stringify (Rejected error_401)
     (sample_page, sample_app\<lparr>localStorage := stored_session\<rparr>))) =
     api_error ''Invalid email or password''"
  using response_interceptor_401 [of error_401 "sample_app\<lparr>localStorage := stored_session\<rparr>"
      sample_page sample_stringify]
  by (simp add: error_401_def sample_app_def validate_sample_page login_catch_def
      response_prop_def truthy_opt_def api_error_def)

text \<open>
  The claim as stated fails on a 401 answer to a login submission made over a stored
  session: the role stays in storage, and the rejection reaches the login page, whose
  error handling runs and shows the message.
\<close>

theorem response_interceptor_401_counterexample:
  "localStorage (snd (handleSubmit sample_stringify (Rejected error_401)
     (sample_page, sample_app\<lparr>localStorage := stored_session\<rparr>))) ''role'' = Some ''ADMIN'' \<and>
   snd (response_interceptor (Rejected error_401 :: login_data promise)
     (sample_app\<lparr>localStorage := stored_session\<rparr>)) = Rejected error_401 \<and>
   errors (fst (handleSubmit sample_stringify (Rejected error_401)
     (sample_page, sample_app\<lparr>localStorage := stored_session\<rparr>))) =
     api_error ''Invalid email or password'' \<and>
   displayed_api_error (fst (handleSubmit sample_stringify (Rejected error_401)
     (sample_page, sample_app\<lparr>localStorage := stored_session\<rparr>))) =
     Some (JStr ''Invalid email or password'')"
  by (simp add: handleSubmit_def Let_def validate_sample_page response_interceptor_def
      error_401_def sample_app_def stored_session_def removeItem_def login_catch_def
      response_prop_def truthy_opt_def api_error_def displayed_api_error_def)

text \<open>
  The login page's own handling of a rejected submission, part of \<open>handleSubmit\<close>: for
  a 401 response whose body carries the error \<open>Invalid email or password\<close> it sets and
  shows exactly that message and calls no router navigation.
\<close>

lemma login_page_handles_401:
  assumes "validate (p\<lparr>errors := JObj []\<rparr>) = []"
    and "map_option status (response e) = Some 401"
    and "response_prop e ''error'' = Some (JStr ''Invalid email or password'')"
  shows "errors (fst (handleSubmit stringify (Rejected e) (p, w))) =
           api_error ''Invalid email or password'' \<and>
         displayed_api_error (fst (handleSubmit stringify (Rejected e) (p, w))) =
           Some (JStr ''Invalid email or password'') \<and>
         router (snd (handleSubmit stringify (Rejected e) (p, w))) = router w"
  using assms
  by (simp add: handleSubmit_def Let_def response_interceptor_def login_catch_def
      truthy_opt_def api_error_def displayed_api_error_def)

text \<open>
  Claim C4. A login submission answered with status 401 and the body
  \<open>{error: "Invalid email or password"}\<close> should show that exact message on the login
  page and perform no navigation. The code does not: the page sets the message and calls
  no router navigation, but the response interceptor, which has no exemption for the login
  request, has assigned the login address to the window location for the same response.
  That assignment starts a full navigation, which reloads the login page and discards the
  message the page has just set.
\<close>

theorem handleSubmit_401_reloads_login:
  "validate (sample_page\<lparr>errors := JObj []\<rparr>) = [] \<and>
   displayed_api_error (fst (handleSubmit sample_stringify (Rejected error_401)
     (sample_page, sample_app))) = Some (JStr ''Invalid email or password'') \<and>
   router (snd (handleSubmit sample_stringify (Rejected error_401)
     (sample_page, sample_app))) = router sample_app \<and>
   window_location sample_app = [] \<and>
   window_location (snd (handleSubmit sample_stringify (Rejected error_401)
     (sample_page, sample_app))) = [''/login'']"
  by (simp add: handleSubmit_def Let_def validate_sample_page response_interceptor_def
      error_401_def sample_app_def login_catch_def response_prop_def truthy_opt_def
      api_error_def displayed_api_error_def)

end
